theory Spec2Isabelle
  imports Main "HOL-Library.Word"
begin

section \<open>MIPI DSI/DCS payload rendering (mipi.py)\<close>

text \<open>
  The module turns a transaction type and a payload of bytes into a line of C source.
  Python's \<open>bytes\<close> is a list of 8-bit values; indexing it yields an \<open>int\<close> in
  \<open>0..255\<close>, read here with \<open>unat\<close>. Exceptions are values of \<open>error\<close>: a function
  that may raise returns \<open>error + 'a\<close> with \<open>Inl\<close> for the raised exception.
\<close>

type_synonym byte = "8 word"

datatype error = IndexError | ValueError

subsection \<open>Parameter formatting\<close>

text \<open>
  \<open>f'{i:#0{w}x}'\<close> writes \<open>i\<close> in lower-case hexadecimal after the prefix \<open>0x\<close>
  and fills with zeros between prefix and digits up to the total width \<open>w\<close>; a longer
  number is not cut. Only non-negative integers reach it.
\<close>

definition hex_digit :: "nat \<Rightarrow> char" where
  "hex_digit d = ''0123456789abcdef'' ! d"

function hex_digits :: "nat \<Rightarrow> string" where
  "hex_digits i = (if i < 16 then [hex_digit i] else hex_digits (i div 16) @ [hex_digit (i mod 16)])"
  by pat_completeness auto
termination
  by (relation "measure id") auto

declare hex_digits.simps [simp del]

definition format_hex_alt_zero :: "nat \<Rightarrow> nat \<Rightarrow> string" where
  "format_hex_alt_zero w i =
     (let ds = hex_digits i in ''0x'' @ replicate (w - (2 + length ds)) CHR ''0'' @ ds)"

definition hex_fill :: "nat \<Rightarrow> nat \<Rightarrow> string" where
  "hex_fill i sz = format_hex_alt_zero (sz * 2 + 2) i"

text \<open>\<open>sep.join(p)\<close> of Python.\<close>

fun str_join :: "string \<Rightarrow> string list \<Rightarrow> string" where
  "str_join sep [] = []"
| "str_join sep [x] = x"
| "str_join sep (x # y # ys) = x @ sep @ str_join sep (y # ys)"

definition join_params :: "string list \<Rightarrow> string" where
  "join_params p = (if p \<noteq> [] then '', '' @ str_join '', '' p else [])"

definition get_params_hex :: "byte list \<Rightarrow> string list" where
  "get_params_hex b = map (\<lambda>i. hex_fill (unat i) 1) b"

text \<open>
  \<open>zip(*[itr] * size)\<close> draws from one shared iterator: every tuple takes the next
  \<open>size\<close> items, and the first tuple that cannot be completed ends the zip, its items
  lost. With no iterator at all (\<open>size = 0\<close>) \<open>zip()\<close> is empty.
\<close>

function zip_shared :: "nat \<Rightarrow> 'a list \<Rightarrow> 'a list list" where
  "zip_shared sz b =
     (if sz = 0 \<or> length b < sz then []
      else take sz b # zip_shared sz (drop sz b))"
  by pat_completeness auto
termination
  by (relation "measure (\<lambda>(sz, b). length b)") auto

declare zip_shared.simps [simp del]

text \<open>
  \<open>int.from_bytes(t, byteorder=...)\<close>: the unsigned value of the bytes, most significant
  first for \<open>'big'\<close>, least significant first for \<open>'little'\<close>; any other byte order
  raises ValueError.
\<close>

definition int_from_bytes :: "byte list \<Rightarrow> string \<Rightarrow> error + nat" where
  "int_from_bytes t byteorder =
     (if byteorder = ''little'' then Inr (foldr (\<lambda>x acc. unat x + 256 * acc) t 0)
      else if byteorder = ''big'' then Inr (foldl (\<lambda>acc x. acc * 256 + unat x) 0 t)
      else Inl ValueError)"

text \<open>A list comprehension whose element expression may raise: the first error ends it.\<close>

fun comprehension :: "('a \<Rightarrow> error + 'b) \<Rightarrow> 'a list \<Rightarrow> error + 'b list" where
  "comprehension f [] = Inr []"
| "comprehension f (x # xs) =
     (case f x of
        Inl e \<Rightarrow> Inl e
      | Inr y \<Rightarrow> (case comprehension f xs of Inl e \<Rightarrow> Inl e | Inr ys \<Rightarrow> Inr (y # ys)))"

text \<open>
  The width \<open>sz\<close> (\<open>size\<close> in the source) is a count (the tables use 2); a
  negative one would give an empty \<open>[itr] * size\<close> as 0 does.
\<close>

definition get_params_int :: "nat \<Rightarrow> string \<Rightarrow> byte list \<Rightarrow> error + string list" where
  "get_params_int sz byteoder b =
     comprehension
       (\<lambda>t. case int_from_bytes t byteoder of Inl e \<Rightarrow> Inl e | Inr i \<Rightarrow> Inr (hex_fill i sz))
       (zip_shared sz b)"

subsection \<open>Tear mode\<close>

datatype TearMode = VBLANK | VHBLANK

fun TearMode_value :: "TearMode \<Rightarrow> nat" where
  "TearMode_value VBLANK = 0"
| "TearMode_value VHBLANK = 1"

fun TearMode_name :: "TearMode \<Rightarrow> string" where
  "TearMode_name VBLANK = ''VBLANK''"
| "TearMode_name VHBLANK = ''VHBLANK''"

text \<open>\<open>TearMode(v)\<close>: the member with that value, ValueError when there is none.\<close>

definition TearMode_of :: "nat \<Rightarrow> error + TearMode" where
  "TearMode_of v =
     (case List.find (\<lambda>m. TearMode_value m = v) [VBLANK, VHBLANK] of
        None \<Rightarrow> Inl ValueError
      | Some m \<Rightarrow> Inr m)"

definition TearMode_identifier :: "TearMode \<Rightarrow> string" where
  "TearMode_identifier m = ''MIPI_DSI_DCS_TEAR_MODE_'' @ TearMode_name m"

definition TearMode_get_params :: "byte list \<Rightarrow> error + string list" where
  "TearMode_get_params b =
     (case b of
        [] \<Rightarrow> Inl IndexError
      | b0 # _ \<Rightarrow> (case TearMode_of (unat b0) of
                     Inl e \<Rightarrow> Inl e
                   | Inr m \<Rightarrow> Inr [TearMode_identifier m]))"

subsection \<open>Names and descriptions\<close>

text \<open>\<open>name.lower().replace('_', ' ')\<close> on the ASCII names of the members.\<close>

definition char_lower :: "char \<Rightarrow> char" where
  "char_lower c =
     (let n = (of_char c :: nat) in if 65 \<le> n \<and> n \<le> 90 then char_of (n + 32) else c)"

definition str_lower :: "string \<Rightarrow> string" where
  "str_lower s = map char_lower s"

definition str_replace :: "char \<Rightarrow> char \<Rightarrow> string \<Rightarrow> string" where
  "str_replace old new s = map (\<lambda>c. if c = old then new else c) s"

subsection \<open>MIPI DCS commands\<close>

datatype DCSCommand =
    NOP
  | SOFT_RESET
  | GET_DISPLAY_ID
  | GET_RED_CHANNEL
  | GET_GREEN_CHANNEL
  | GET_BLUE_CHANNEL
  | GET_DISPLAY_STATUS
  | GET_POWER_MODE
  | GET_ADDRESS_MODE
  | GET_PIXEL_FORMAT
  | GET_DISPLAY_MODE
  | GET_SIGNAL_MODE
  | GET_DIAGNOSTIC_RESULT
  | ENTER_SLEEP_MODE
  | EXIT_SLEEP_MODE
  | ENTER_PARTIAL_MODE
  | ENTER_NORMAL_MODE
  | EXIT_INVERT_MODE
  | ENTER_INVERT_MODE
  | SET_GAMMA_CURVE
  | SET_DISPLAY_OFF
  | SET_DISPLAY_ON
  | SET_COLUMN_ADDRESS
  | SET_PAGE_ADDRESS
  | WRITE_MEMORY_START
  | WRITE_LUT
  | READ_MEMORY_START
  | SET_PARTIAL_AREA
  | SET_SCROLL_AREA
  | SET_TEAR_OFF
  | SET_TEAR_ON
  | SET_ADDRESS_MODE
  | SET_SCROLL_START
  | EXIT_IDLE_MODE
  | ENTER_IDLE_MODE
  | SET_PIXEL_FORMAT
  | WRITE_MEMORY_CONTINUE
  | READ_MEMORY_CONTINUE
  | SET_TEAR_SCANLINE
  | GET_SCANLINE
  | SET_DISPLAY_BRIGHTNESS
  | GET_DISPLAY_BRIGHTNESS
  | WRITE_CONTROL_DISPLAY
  | GET_CONTROL_DISPLAY
  | WRITE_POWER_SAVE
  | GET_POWER_SAVE
  | SET_CABC_MIN_BRIGHTNESS
  | GET_CABC_MIN_BRIGHTNESS
  | READ_DDB_START
  | READ_DDB_CONTINUE

fun DCSCommand_name :: "DCSCommand \<Rightarrow> string" where
  "DCSCommand_name NOP = ''NOP''"
| "DCSCommand_name SOFT_RESET = ''SOFT_RESET''"
| "DCSCommand_name GET_DISPLAY_ID = ''GET_DISPLAY_ID''"
| "DCSCommand_name GET_RED_CHANNEL = ''GET_RED_CHANNEL''"
| "DCSCommand_name GET_GREEN_CHANNEL = ''GET_GREEN_CHANNEL''"
| "DCSCommand_name GET_BLUE_CHANNEL = ''GET_BLUE_CHANNEL''"
| "DCSCommand_name GET_DISPLAY_STATUS = ''GET_DISPLAY_STATUS''"
| "DCSCommand_name GET_POWER_MODE = ''GET_POWER_MODE''"
| "DCSCommand_name GET_ADDRESS_MODE = ''GET_ADDRESS_MODE''"
| "DCSCommand_name GET_PIXEL_FORMAT = ''GET_PIXEL_FORMAT''"
| "DCSCommand_name GET_DISPLAY_MODE = ''GET_DISPLAY_MODE''"
| "DCSCommand_name GET_SIGNAL_MODE = ''GET_SIGNAL_MODE''"
| "DCSCommand_name GET_DIAGNOSTIC_RESULT = ''GET_DIAGNOSTIC_RESULT''"
| "DCSCommand_name ENTER_SLEEP_MODE = ''ENTER_SLEEP_MODE''"
| "DCSCommand_name EXIT_SLEEP_MODE = ''EXIT_SLEEP_MODE''"
| "DCSCommand_name ENTER_PARTIAL_MODE = ''ENTER_PARTIAL_MODE''"
| "DCSCommand_name ENTER_NORMAL_MODE = ''ENTER_NORMAL_MODE''"
| "DCSCommand_name EXIT_INVERT_MODE = ''EXIT_INVERT_MODE''"
| "DCSCommand_name ENTER_INVERT_MODE = ''ENTER_INVERT_MODE''"
| "DCSCommand_name SET_GAMMA_CURVE = ''SET_GAMMA_CURVE''"
| "DCSCommand_name SET_DISPLAY_OFF = ''SET_DISPLAY_OFF''"
| "DCSCommand_name SET_DISPLAY_ON = ''SET_DISPLAY_ON''"
| "DCSCommand_name SET_COLUMN_ADDRESS = ''SET_COLUMN_ADDRESS''"
| "DCSCommand_name SET_PAGE_ADDRESS = ''SET_PAGE_ADDRESS''"
| "DCSCommand_name WRITE_MEMORY_START = ''WRITE_MEMORY_START''"
| "DCSCommand_name WRITE_LUT = ''WRITE_LUT''"
| "DCSCommand_name READ_MEMORY_START = ''READ_MEMORY_START''"
| "DCSCommand_name SET_PARTIAL_AREA = ''SET_PARTIAL_AREA''"
| "DCSCommand_name SET_SCROLL_AREA = ''SET_SCROLL_AREA''"
| "DCSCommand_name SET_TEAR_OFF = ''SET_TEAR_OFF''"
| "DCSCommand_name SET_TEAR_ON = ''SET_TEAR_ON''"
| "DCSCommand_name SET_ADDRESS_MODE = ''SET_ADDRESS_MODE''"
| "DCSCommand_name SET_SCROLL_START = ''SET_SCROLL_START''"
| "DCSCommand_name EXIT_IDLE_MODE = ''EXIT_IDLE_MODE''"
| "DCSCommand_name ENTER_IDLE_MODE = ''ENTER_IDLE_MODE''"
| "DCSCommand_name SET_PIXEL_FORMAT = ''SET_PIXEL_FORMAT''"
| "DCSCommand_name WRITE_MEMORY_CONTINUE = ''WRITE_MEMORY_CONTINUE''"
| "DCSCommand_name READ_MEMORY_CONTINUE = ''READ_MEMORY_CONTINUE''"
| "DCSCommand_name SET_TEAR_SCANLINE = ''SET_TEAR_SCANLINE''"
| "DCSCommand_name GET_SCANLINE = ''GET_SCANLINE''"
| "DCSCommand_name SET_DISPLAY_BRIGHTNESS = ''SET_DISPLAY_BRIGHTNESS''"
| "DCSCommand_name GET_DISPLAY_BRIGHTNESS = ''GET_DISPLAY_BRIGHTNESS''"
| "DCSCommand_name WRITE_CONTROL_DISPLAY = ''WRITE_CONTROL_DISPLAY''"
| "DCSCommand_name GET_CONTROL_DISPLAY = ''GET_CONTROL_DISPLAY''"
| "DCSCommand_name WRITE_POWER_SAVE = ''WRITE_POWER_SAVE''"
| "DCSCommand_name GET_POWER_SAVE = ''GET_POWER_SAVE''"
| "DCSCommand_name SET_CABC_MIN_BRIGHTNESS = ''SET_CABC_MIN_BRIGHTNESS''"
| "DCSCommand_name GET_CABC_MIN_BRIGHTNESS = ''GET_CABC_MIN_BRIGHTNESS''"
| "DCSCommand_name READ_DDB_START = ''READ_DDB_START''"
| "DCSCommand_name READ_DDB_CONTINUE = ''READ_DDB_CONTINUE''"

text \<open>
  The attributes \<open>__new__\<close> stores on a member. An argument left out of the member's
  tuple is \<open>None\<close> here; \<open>__new__\<close> gives \<open>nargs\<close> and \<open>method\<close> the default
  \<open>None\<close> and \<open>get_params\<close> the default \<open>_get_params_hex\<close>. The fields
  \<open>dcs_value\<close> and \<open>dcs_method\<close> are the member's \<open>value\<close> and \<open>method\<close>.
\<close>

record dcs_attrs =
  dcs_value :: nat
  nargs :: "int option"
  dcs_method :: "string option"
  get_params :: "byte list \<Rightarrow> error + string list"

definition DCSCommand_new ::
  "nat \<Rightarrow> int option \<Rightarrow> string option \<Rightarrow> (byte list \<Rightarrow> error + string list) option \<Rightarrow> dcs_attrs"
where
  "DCSCommand_new v n m g =
     \<lparr>dcs_value = v, nargs = n, dcs_method = m,
      get_params = (case g of None \<Rightarrow> (\<lambda>b. Inr (get_params_hex b)) | Some f \<Rightarrow> f)\<rparr>"

fun DCSCommand_attrs :: "DCSCommand \<Rightarrow> dcs_attrs" where
  "DCSCommand_attrs NOP = DCSCommand_new 0x00 (Some 0) (Some ''mipi_dsi_dcs_nop'') None"
| "DCSCommand_attrs SOFT_RESET = DCSCommand_new 0x01 (Some 0) (Some ''mipi_dsi_dcs_soft_reset'') None"
| "DCSCommand_attrs GET_DISPLAY_ID = DCSCommand_new 0x04 None None None"
| "DCSCommand_attrs GET_RED_CHANNEL = DCSCommand_new 0x06 None None None"
| "DCSCommand_attrs GET_GREEN_CHANNEL = DCSCommand_new 0x07 None None None"
| "DCSCommand_attrs GET_BLUE_CHANNEL = DCSCommand_new 0x08 None None None"
| "DCSCommand_attrs GET_DISPLAY_STATUS = DCSCommand_new 0x09 None None None"
| "DCSCommand_attrs GET_POWER_MODE = DCSCommand_new 0x0A None None None"
| "DCSCommand_attrs GET_ADDRESS_MODE = DCSCommand_new 0x0B None None None"
| "DCSCommand_attrs GET_PIXEL_FORMAT = DCSCommand_new 0x0C None None None"
| "DCSCommand_attrs GET_DISPLAY_MODE = DCSCommand_new 0x0D None None None"
| "DCSCommand_attrs GET_SIGNAL_MODE = DCSCommand_new 0x0E None None None"
| "DCSCommand_attrs GET_DIAGNOSTIC_RESULT = DCSCommand_new 0x0F None None None"
| "DCSCommand_attrs ENTER_SLEEP_MODE = DCSCommand_new 0x10 (Some 0) (Some ''mipi_dsi_dcs_enter_sleep_mode'') None"
| "DCSCommand_attrs EXIT_SLEEP_MODE = DCSCommand_new 0x11 (Some 0) (Some ''mipi_dsi_dcs_exit_sleep_mode'') None"
| "DCSCommand_attrs ENTER_PARTIAL_MODE = DCSCommand_new 0x12 (Some 0) None None"
| "DCSCommand_attrs ENTER_NORMAL_MODE = DCSCommand_new 0x13 (Some 0) None None"
| "DCSCommand_attrs EXIT_INVERT_MODE = DCSCommand_new 0x20 (Some 0) None None"
| "DCSCommand_attrs ENTER_INVERT_MODE = DCSCommand_new 0x21 (Some 0) None None"
| "DCSCommand_attrs SET_GAMMA_CURVE = DCSCommand_new 0x26 (Some 1) None None"
| "DCSCommand_attrs SET_DISPLAY_OFF = DCSCommand_new 0x28 (Some 0) (Some ''mipi_dsi_dcs_set_display_off'') None"
| "DCSCommand_attrs SET_DISPLAY_ON = DCSCommand_new 0x29 (Some 0) (Some ''mipi_dsi_dcs_set_display_on'') None"
| "DCSCommand_attrs SET_COLUMN_ADDRESS = DCSCommand_new 0x2A (Some 4) (Some ''mipi_dsi_dcs_set_column_address'') (Some (get_params_int 2 ''big''))"
| "DCSCommand_attrs SET_PAGE_ADDRESS = DCSCommand_new 0x2B (Some 4) (Some ''mipi_dsi_dcs_set_page_address'') (Some (get_params_int 2 ''big''))"
| "DCSCommand_attrs WRITE_MEMORY_START = DCSCommand_new 0x2C None None None"
| "DCSCommand_attrs WRITE_LUT = DCSCommand_new 0x2D None None None"
| "DCSCommand_attrs READ_MEMORY_START = DCSCommand_new 0x2E None None None"
| "DCSCommand_attrs SET_PARTIAL_AREA = DCSCommand_new 0x30 None None None"
| "DCSCommand_attrs SET_SCROLL_AREA = DCSCommand_new 0x33 (Some 6) None None"
| "DCSCommand_attrs SET_TEAR_OFF = DCSCommand_new 0x34 (Some 0) (Some ''mipi_dsi_dcs_set_tear_off'') (Some TearMode_get_params)"
| "DCSCommand_attrs SET_TEAR_ON = DCSCommand_new 0x35 (Some 1) (Some ''mipi_dsi_dcs_set_tear_on'') (Some TearMode_get_params)"
| "DCSCommand_attrs SET_ADDRESS_MODE = DCSCommand_new 0x36 (Some 1) None None"
| "DCSCommand_attrs SET_SCROLL_START = DCSCommand_new 0x37 (Some 2) None None"
| "DCSCommand_attrs EXIT_IDLE_MODE = DCSCommand_new 0x38 (Some 0) None None"
| "DCSCommand_attrs ENTER_IDLE_MODE = DCSCommand_new 0x39 (Some 0) None None"
| "DCSCommand_attrs SET_PIXEL_FORMAT = DCSCommand_new 0x3A (Some 1) (Some ''mipi_dsi_dcs_set_pixel_format'') None"
| "DCSCommand_attrs WRITE_MEMORY_CONTINUE = DCSCommand_new 0x3C None None None"
| "DCSCommand_attrs READ_MEMORY_CONTINUE = DCSCommand_new 0x3E None None None"
| "DCSCommand_attrs SET_TEAR_SCANLINE = DCSCommand_new 0x44 (Some 2) (Some ''mipi_dsi_dcs_set_tear_scanline'') (Some (get_params_int 2 ''big''))"
| "DCSCommand_attrs GET_SCANLINE = DCSCommand_new 0x45 None None None"
| "DCSCommand_attrs SET_DISPLAY_BRIGHTNESS = DCSCommand_new 0x51 (Some 2) (Some ''mipi_dsi_dcs_set_display_brightness'') (Some (get_params_int 2 ''little''))"
| "DCSCommand_attrs GET_DISPLAY_BRIGHTNESS = DCSCommand_new 0x52 None None None"
| "DCSCommand_attrs WRITE_CONTROL_DISPLAY = DCSCommand_new 0x53 None None None"
| "DCSCommand_attrs GET_CONTROL_DISPLAY = DCSCommand_new 0x54 None None None"
| "DCSCommand_attrs WRITE_POWER_SAVE = DCSCommand_new 0x55 None None None"
| "DCSCommand_attrs GET_POWER_SAVE = DCSCommand_new 0x56 None None None"
| "DCSCommand_attrs SET_CABC_MIN_BRIGHTNESS = DCSCommand_new 0x5E None None None"
| "DCSCommand_attrs GET_CABC_MIN_BRIGHTNESS = DCSCommand_new 0x5F None None None"
| "DCSCommand_attrs READ_DDB_START = DCSCommand_new 0xA1 None None None"
| "DCSCommand_attrs READ_DDB_CONTINUE = DCSCommand_new 0xA8 None None None"

definition DCSCommand_members :: "DCSCommand list" where
  "DCSCommand_members =
     [NOP, SOFT_RESET, GET_DISPLAY_ID, GET_RED_CHANNEL, GET_GREEN_CHANNEL,
      GET_BLUE_CHANNEL, GET_DISPLAY_STATUS, GET_POWER_MODE, GET_ADDRESS_MODE,
      GET_PIXEL_FORMAT, GET_DISPLAY_MODE, GET_SIGNAL_MODE, GET_DIAGNOSTIC_RESULT,
      ENTER_SLEEP_MODE, EXIT_SLEEP_MODE, ENTER_PARTIAL_MODE, ENTER_NORMAL_MODE,
      EXIT_INVERT_MODE, ENTER_INVERT_MODE, SET_GAMMA_CURVE, SET_DISPLAY_OFF,
      SET_DISPLAY_ON, SET_COLUMN_ADDRESS, SET_PAGE_ADDRESS, WRITE_MEMORY_START,
      WRITE_LUT, READ_MEMORY_START, SET_PARTIAL_AREA, SET_SCROLL_AREA, SET_TEAR_OFF,
      SET_TEAR_ON, SET_ADDRESS_MODE, SET_SCROLL_START, EXIT_IDLE_MODE,
      ENTER_IDLE_MODE, SET_PIXEL_FORMAT, WRITE_MEMORY_CONTINUE, READ_MEMORY_CONTINUE,
      SET_TEAR_SCANLINE, GET_SCANLINE, SET_DISPLAY_BRIGHTNESS,
      GET_DISPLAY_BRIGHTNESS, WRITE_CONTROL_DISPLAY, GET_CONTROL_DISPLAY,
      WRITE_POWER_SAVE, GET_POWER_SAVE, SET_CABC_MIN_BRIGHTNESS,
      GET_CABC_MIN_BRIGHTNESS, READ_DDB_START, READ_DDB_CONTINUE]"

text \<open>\<open>DCSCommand(v)\<close>: the member with that value, ValueError when there is none.\<close>

definition DCSCommand_of :: "nat \<Rightarrow> error + DCSCommand" where
  "DCSCommand_of v =
     (case List.find (\<lambda>c. dcs_value (DCSCommand_attrs c) = v) DCSCommand_members of
        None \<Rightarrow> Inl ValueError
      | Some c \<Rightarrow> Inr c)"

definition DCSCommand_identifier :: "DCSCommand \<Rightarrow> string" where
  "DCSCommand_identifier c = ''MIPI_DCS_'' @ DCSCommand_name c"

definition DCSCommand_description :: "DCSCommand \<Rightarrow> string" where
  "DCSCommand_description c = str_replace CHR ''_'' CHR '' '' (str_lower (DCSCommand_name c))"

text \<open>
  \<open>DCSCommand.find\<close>: \<open>payload[0]\<close> raises IndexError on an empty payload, which the
  \<open>except ValueError\<close> does not catch; the ValueError of an unknown value becomes
  \<open>None\<close>. \<open>len(payload) - 1 == dcs.nargs\<close> is false when \<open>nargs\<close> is \<open>None\<close>.
\<close>

definition DCSCommand_find :: "byte list \<Rightarrow> error + DCSCommand option" where
  "DCSCommand_find payload =
     (case payload of
        [] \<Rightarrow> Inl IndexError
      | p0 # _ \<Rightarrow>
          (case DCSCommand_of (unat p0) of
             Inl ValueError \<Rightarrow> Inr None
           | Inl e \<Rightarrow> Inl e
           | Inr dcs \<Rightarrow>
               Inr (if Some (int (length payload) - 1) = nargs (DCSCommand_attrs dcs)
                    then Some dcs else None)))"

subsection \<open>Rendering\<close>

abbreviation TAB :: char where "TAB \<equiv> CHR 0x09"
abbreviation NL :: char where "NL \<equiv> CHR 0x0A"
abbreviation DQUOTE :: char where "DQUOTE \<equiv> CHR 0x22"
abbreviation BACKSLASH :: char where "BACKSLASH \<equiv> CHR 0x5C"

definition check_ret :: "string \<Rightarrow> string \<Rightarrow> string" where
  "check_ret expr description =
     [TAB] @ ''ret = '' @ expr @ '';'' @ [NL] @
     [TAB] @ ''if (ret < 0) {'' @ [NL] @
     [TAB, TAB] @ ''dev_err(dev, '' @ [DQUOTE] @ ''Failed to '' @ description @ '': %d'' @
       [BACKSLASH] @ ''n'' @ [DQUOTE] @ '', ret);'' @ [NL] @
     [TAB, TAB] @ ''return ret;'' @ [NL] @
     [TAB] @ ''}''"

datatype Transaction =
    V_SYNC_START
  | V_SYNC_END
  | H_SYNC_START
  | H_SYNC_END
  | COLOR_MODE_OFF
  | COLOR_MODE_ON
  | SHUTDOWN_PERIPHERAL
  | TURN_ON_PERIPHERAL
  | GENERIC_SHORT_WRITE_0_PARAM
  | GENERIC_SHORT_WRITE_1_PARAM
  | GENERIC_SHORT_WRITE_2_PARAM
  | GENERIC_READ_REQUEST_0_PARAM
  | GENERIC_READ_REQUEST_1_PARAM
  | GENERIC_READ_REQUEST_2_PARAM
  | DCS_SHORT_WRITE
  | DCS_SHORT_WRITE_PARAM
  | DCS_READ
  | DCS_COMPRESSION_MODE
  | PPS_LONG_WRITE
  | SET_MAXIMUM_RETURN_PACKET_SIZE
  | END_OF_TRANSMISSION
  | NULL_PACKET
  | BLANKING_PACKET
  | GENERIC_LONG_WRITE
  | DCS_LONG_WRITE
  | LOOSELY_PACKED_PIXEL_STREAM_YCBCR20
  | PACKED_PIXEL_STREAM_YCBCR24
  | PACKED_PIXEL_STREAM_YCBCR16
  | PACKED_PIXEL_STREAM_30
  | PACKED_PIXEL_STREAM_36
  | PACKED_PIXEL_STREAM_YCBCR12
  | PACKED_PIXEL_STREAM_16
  | PACKED_PIXEL_STREAM_18
  | PIXEL_STREAM_3BYTE_18
  | PACKED_PIXEL_STREAM_24

fun Transaction_name :: "Transaction \<Rightarrow> string" where
  "Transaction_name V_SYNC_START = ''V_SYNC_START''"
| "Transaction_name V_SYNC_END = ''V_SYNC_END''"
| "Transaction_name H_SYNC_START = ''H_SYNC_START''"
| "Transaction_name H_SYNC_END = ''H_SYNC_END''"
| "Transaction_name COLOR_MODE_OFF = ''COLOR_MODE_OFF''"
| "Transaction_name COLOR_MODE_ON = ''COLOR_MODE_ON''"
| "Transaction_name SHUTDOWN_PERIPHERAL = ''SHUTDOWN_PERIPHERAL''"
| "Transaction_name TURN_ON_PERIPHERAL = ''TURN_ON_PERIPHERAL''"
| "Transaction_name GENERIC_SHORT_WRITE_0_PARAM = ''GENERIC_SHORT_WRITE_0_PARAM''"
| "Transaction_name GENERIC_SHORT_WRITE_1_PARAM = ''GENERIC_SHORT_WRITE_1_PARAM''"
| "Transaction_name GENERIC_SHORT_WRITE_2_PARAM = ''GENERIC_SHORT_WRITE_2_PARAM''"
| "Transaction_name GENERIC_READ_REQUEST_0_PARAM = ''GENERIC_READ_REQUEST_0_PARAM''"
| "Transaction_name GENERIC_READ_REQUEST_1_PARAM = ''GENERIC_READ_REQUEST_1_PARAM''"
| "Transaction_name GENERIC_READ_REQUEST_2_PARAM = ''GENERIC_READ_REQUEST_2_PARAM''"
| "Transaction_name DCS_SHORT_WRITE = ''DCS_SHORT_WRITE''"
| "Transaction_name DCS_SHORT_WRITE_PARAM = ''DCS_SHORT_WRITE_PARAM''"
| "Transaction_name DCS_READ = ''DCS_READ''"
| "Transaction_name DCS_COMPRESSION_MODE = ''DCS_COMPRESSION_MODE''"
| "Transaction_name PPS_LONG_WRITE = ''PPS_LONG_WRITE''"
| "Transaction_name SET_MAXIMUM_RETURN_PACKET_SIZE = ''SET_MAXIMUM_RETURN_PACKET_SIZE''"
| "Transaction_name END_OF_TRANSMISSION = ''END_OF_TRANSMISSION''"
| "Transaction_name NULL_PACKET = ''NULL_PACKET''"
| "Transaction_name BLANKING_PACKET = ''BLANKING_PACKET''"
| "Transaction_name GENERIC_LONG_WRITE = ''GENERIC_LONG_WRITE''"
| "Transaction_name DCS_LONG_WRITE = ''DCS_LONG_WRITE''"
| "Transaction_name LOOSELY_PACKED_PIXEL_STREAM_YCBCR20 = ''LOOSELY_PACKED_PIXEL_STREAM_YCBCR20''"
| "Transaction_name PACKED_PIXEL_STREAM_YCBCR24 = ''PACKED_PIXEL_STREAM_YCBCR24''"
| "Transaction_name PACKED_PIXEL_STREAM_YCBCR16 = ''PACKED_PIXEL_STREAM_YCBCR16''"
| "Transaction_name PACKED_PIXEL_STREAM_30 = ''PACKED_PIXEL_STREAM_30''"
| "Transaction_name PACKED_PIXEL_STREAM_36 = ''PACKED_PIXEL_STREAM_36''"
| "Transaction_name PACKED_PIXEL_STREAM_YCBCR12 = ''PACKED_PIXEL_STREAM_YCBCR12''"
| "Transaction_name PACKED_PIXEL_STREAM_16 = ''PACKED_PIXEL_STREAM_16''"
| "Transaction_name PACKED_PIXEL_STREAM_18 = ''PACKED_PIXEL_STREAM_18''"
| "Transaction_name PIXEL_STREAM_3BYTE_18 = ''PIXEL_STREAM_3BYTE_18''"
| "Transaction_name PACKED_PIXEL_STREAM_24 = ''PACKED_PIXEL_STREAM_24''"

definition Transaction_description :: "Transaction \<Rightarrow> string" where
  "Transaction_description t = str_replace CHR ''_'' CHR '' '' (str_lower (Transaction_name t))"

definition generate_generic_write :: "Transaction \<Rightarrow> byte list \<Rightarrow> error + string" where
  "generate_generic_write t payload =
     Inr ([TAB] @ ''dsi_generic_write_seq(dsi'' @ join_params (get_params_hex payload) @ '');'')"

text \<open>
  A member of \<open>DCSCommand\<close> is always true in \<open>if dcs\<close>; \<open>dcs.method\<close> is true when it
  is a non-empty string. \<open>args[0] = dcs.name\<close> raises IndexError on an empty list.
\<close>

definition generate_dcs_write :: "Transaction \<Rightarrow> byte list \<Rightarrow> error + string" where
  "generate_dcs_write t payload =
     (case DCSCommand_find payload of
        Inl e \<Rightarrow> Inl e
      | Inr dcs \<Rightarrow>
          (case (case dcs of None \<Rightarrow> None
                 | Some d \<Rightarrow> (case dcs_method (DCSCommand_attrs d) of
                               None \<Rightarrow> None
                             | Some m \<Rightarrow> if m \<noteq> [] then Some (d, m) else None)) of
             Some (d, m) \<Rightarrow>
               (case get_params (DCSCommand_attrs d) (drop 1 payload) of
                  Inl e \<Rightarrow> Inl e
                | Inr ps \<Rightarrow>
                    Inr (check_ret (m @ ''(dsi'' @ join_params ps @ '')'')
                           (DCSCommand_description d)))
           | None \<Rightarrow>
               (let args = get_params_hex payload in
                case (case dcs of
                        None \<Rightarrow> Inr args
                      | Some d \<Rightarrow> if args = [] then Inl IndexError
                                  else Inr (args[0 := DCSCommand_name d])) of
                  Inl e \<Rightarrow> Inl e
                | Inr args' \<Rightarrow>
                    Inr ([TAB] @ ''dsi_dcs_write_seq(dsi'' @ join_params args' @ '');''))))"

definition generate_peripheral :: "Transaction \<Rightarrow> byte list \<Rightarrow> error + string" where
  "generate_peripheral t payload =
     (if t = TURN_ON_PERIPHERAL
        then Inr (check_ret ''mipi_dsi_turn_on_peripheral(dsi)'' (Transaction_description t))
      else if t = SHUTDOWN_PERIPHERAL
        then Inr (check_ret ''mipi_dsi_shutdown_peripheral(dsi)'' (Transaction_description t))
      else Inl ValueError)"

definition generate_fallback :: "Transaction \<Rightarrow> byte list \<Rightarrow> error + string" where
  "generate_fallback t payload = Inl ValueError"

subsection \<open>MIPI DSI transaction types\<close>

text \<open>
  The attributes \<open>__new__\<close> stores on a member of \<open>Transaction\<close>: \<open>max_args\<close> defaults
  to \<open>-1\<close>, the renderer \<open>_generate\<close> to \<open>_generate_fallback\<close>.
\<close>

record tx_attrs =
  tx_value :: nat
  max_args :: int
  priv_generate :: "Transaction \<Rightarrow> byte list \<Rightarrow> error + string"

definition Transaction_new ::
  "nat \<Rightarrow> int option \<Rightarrow> (Transaction \<Rightarrow> byte list \<Rightarrow> error + string) option \<Rightarrow> tx_attrs"
where
  "Transaction_new v m g =
     \<lparr>tx_value = v,
      max_args = (case m of None \<Rightarrow> - 1 | Some n \<Rightarrow> n),
      priv_generate = (case g of None \<Rightarrow> generate_fallback | Some f \<Rightarrow> f)\<rparr>"

fun Transaction_attrs :: "Transaction \<Rightarrow> tx_attrs" where
  "Transaction_attrs V_SYNC_START = Transaction_new 0x01 None None"
| "Transaction_attrs V_SYNC_END = Transaction_new 0x11 None None"
| "Transaction_attrs H_SYNC_START = Transaction_new 0x21 None None"
| "Transaction_attrs H_SYNC_END = Transaction_new 0x31 None None"
| "Transaction_attrs COLOR_MODE_OFF = Transaction_new 0x02 None None"
| "Transaction_attrs COLOR_MODE_ON = Transaction_new 0x12 None None"
| "Transaction_attrs SHUTDOWN_PERIPHERAL = Transaction_new 0x22 (Some 0) (Some generate_peripheral)"
| "Transaction_attrs TURN_ON_PERIPHERAL = Transaction_new 0x32 (Some 0) (Some generate_peripheral)"
| "Transaction_attrs GENERIC_SHORT_WRITE_0_PARAM = Transaction_new 0x03 (Some 0) (Some generate_generic_write)"
| "Transaction_attrs GENERIC_SHORT_WRITE_1_PARAM = Transaction_new 0x13 (Some 1) (Some generate_generic_write)"
| "Transaction_attrs GENERIC_SHORT_WRITE_2_PARAM = Transaction_new 0x23 (Some 2) (Some generate_generic_write)"
| "Transaction_attrs GENERIC_READ_REQUEST_0_PARAM = Transaction_new 0x04 None None"
| "Transaction_attrs GENERIC_READ_REQUEST_1_PARAM = Transaction_new 0x14 None None"
| "Transaction_attrs GENERIC_READ_REQUEST_2_PARAM = Transaction_new 0x24 None None"
| "Transaction_attrs DCS_SHORT_WRITE = Transaction_new 0x05 (Some 0) (Some generate_dcs_write)"
| "Transaction_attrs DCS_SHORT_WRITE_PARAM = Transaction_new 0x15 (Some 1) (Some generate_dcs_write)"
| "Transaction_attrs DCS_READ = Transaction_new 0x06 None None"
| "Transaction_attrs DCS_COMPRESSION_MODE = Transaction_new 0x07 None None"
| "Transaction_attrs PPS_LONG_WRITE = Transaction_new 0x0A None None"
| "Transaction_attrs SET_MAXIMUM_RETURN_PACKET_SIZE = Transaction_new 0x37 None None"
| "Transaction_attrs END_OF_TRANSMISSION = Transaction_new 0x08 None None"
| "Transaction_attrs NULL_PACKET = Transaction_new 0x09 None None"
| "Transaction_attrs BLANKING_PACKET = Transaction_new 0x19 None None"
| "Transaction_attrs GENERIC_LONG_WRITE = Transaction_new 0x29 (Some (- 1)) (Some generate_generic_write)"
| "Transaction_attrs DCS_LONG_WRITE = Transaction_new 0x39 (Some (- 1)) (Some generate_dcs_write)"
| "Transaction_attrs LOOSELY_PACKED_PIXEL_STREAM_YCBCR20 = Transaction_new 0x0c None None"
| "Transaction_attrs PACKED_PIXEL_STREAM_YCBCR24 = Transaction_new 0x1c None None"
| "Transaction_attrs PACKED_PIXEL_STREAM_YCBCR16 = Transaction_new 0x2c None None"
| "Transaction_attrs PACKED_PIXEL_STREAM_30 = Transaction_new 0x0d None None"
| "Transaction_attrs PACKED_PIXEL_STREAM_36 = Transaction_new 0x1d None None"
| "Transaction_attrs PACKED_PIXEL_STREAM_YCBCR12 = Transaction_new 0x3d None None"
| "Transaction_attrs PACKED_PIXEL_STREAM_16 = Transaction_new 0x0e None None"
| "Transaction_attrs PACKED_PIXEL_STREAM_18 = Transaction_new 0x1e None None"
| "Transaction_attrs PIXEL_STREAM_3BYTE_18 = Transaction_new 0x2e None None"
| "Transaction_attrs PACKED_PIXEL_STREAM_24 = Transaction_new 0x3e None None"

definition Transaction_identifier :: "Transaction \<Rightarrow> string" where
  "Transaction_identifier t = ''MIPI_DSI_'' @ Transaction_name t"

definition Transaction_generate :: "Transaction \<Rightarrow> byte list \<Rightarrow> error + string" where
  "Transaction_generate t payload = priv_generate (Transaction_attrs t) t payload"

subsection \<open>Reading a token back\<close>

text \<open>
  The value a hexadecimal token denotes, by position of each digit in the digit string;
  it is what the formatted parameters are compared against.
\<close>

definition hex_digit_value :: "char \<Rightarrow> nat" where
  "hex_digit_value c = length (takeWhile (\<lambda>d. d \<noteq> c) ''0123456789abcdef'')"

definition hex_value :: "string \<Rightarrow> nat" where
  "hex_value s = foldl (\<lambda>acc c. 16 * acc + hex_digit_value c) 0 s"

section \<open>Resolution of a command-set payload\<close>

lemma DCSCommand_of_value: "DCSCommand_of v = Inr c \<Longrightarrow> dcs_value (DCSCommand_attrs c) = v"
  by (auto simp: DCSCommand_of_def find_Some_iff split: option.splits)

lemma DCSCommand_of_error: "DCSCommand_of v = Inl e \<Longrightarrow> e = ValueError"
  by (auto simp: DCSCommand_of_def split: option.splits)

lemma DCSCommand_find_Nil: "DCSCommand_find [] = Inl IndexError"
  by (simp add: DCSCommand_find_def)

lemma DCSCommand_find_Cons:
  "DCSCommand_find (p0 # args) =
     (case DCSCommand_of (unat p0) of
        Inl e \<Rightarrow> Inr None
      | Inr dcs \<Rightarrow>
          Inr (if nargs (DCSCommand_attrs dcs) = Some (int (length args)) then Some dcs
               else None))"
  by (auto simp: DCSCommand_find_def split: sum.splits error.splits dest: DCSCommand_of_error)

text \<open>
  C1. A payload whose opcode is a member with no argument count recorded (\<open>nargs\<close> is
  \<open>None\<close>) is never resolved, however many bytes follow the opcode: the comparison of
  the count of trailing bytes with \<open>None\<close> is false, and \<open>find\<close> returns \<open>None\<close>.
  The payload \<open>[0x04]\<close> (get display id) shows that such a payload is not accepted.
\<close>

theorem DCSCommand_find_unspecified_arity:
  assumes "DCSCommand_of (unat opcode) = Inr c"
    and "nargs (DCSCommand_attrs c) = None"
  shows "DCSCommand_find (opcode # args) = Inr None"
  using assms by (simp add: DCSCommand_find_Cons)

theorem DCSCommand_find_unspecified_arity_witness:
  "DCSCommand_of (unat (0x2C :: byte)) = Inr WRITE_MEMORY_START
   \<and> nargs (DCSCommand_attrs WRITE_MEMORY_START) = None
   \<and> DCSCommand_find [0x2C, 0x01, 0x02, 0x03] = Inr None"
proof -
  have a: "DCSCommand_of (unat (0x2C :: byte)) = Inr WRITE_MEMORY_START"
    by code_simp
  have n: "nargs (DCSCommand_attrs WRITE_MEMORY_START) = None"
    by (simp add: DCSCommand_new_def)
  show ?thesis
    using a n DCSCommand_find_unspecified_arity [OF a n, of "[0x01, 0x02, 0x03]"] by simp
qed

theorem DCSCommand_find_unspecified_arity_counterexample:
  "DCSCommand_of (unat (0x04 :: byte)) = Inr GET_DISPLAY_ID
   \<and> nargs (DCSCommand_attrs GET_DISPLAY_ID) = None
   \<and> DCSCommand_find [0x04] = Inr None"
  by code_simp

text \<open>
  C2. For an opcode whose member has the argument count \<open>N\<close>, a payload of the opcode
  and \<open>N\<close> argument bytes (\<open>N + 1\<close> bytes in all) resolves to that member, whose value
  is the opcode; a payload starting with the opcode and of \<open>N\<close> or of \<open>N + 2\<close> bytes in
  all resolves to \<open>None\<close>.
\<close>

theorem DCSCommand_find_fixed_arity:
  assumes "DCSCommand_of (unat opcode) = Inr c"
    and "nargs (DCSCommand_attrs c) = Some N"
  shows "(int (length (opcode # args)) = N + 1 \<longrightarrow>
            DCSCommand_find (opcode # args) = Inr (Some c)
            \<and> dcs_value (DCSCommand_attrs c) = unat opcode)
       \<and> (int (length (opcode # args)) = N \<longrightarrow> DCSCommand_find (opcode # args) = Inr None)
       \<and> (int (length (opcode # args)) = N + 2 \<longrightarrow> DCSCommand_find (opcode # args) = Inr None)"
  using assms by (auto simp: DCSCommand_find_Cons dest: DCSCommand_of_value)

theorem DCSCommand_find_fixed_arity_witness:
  "DCSCommand_of (unat (0x3A :: byte)) = Inr SET_PIXEL_FORMAT
   \<and> nargs (DCSCommand_attrs SET_PIXEL_FORMAT) = Some 1
   \<and> DCSCommand_find [0x3A, 0x77] = Inr (Some SET_PIXEL_FORMAT)
   \<and> dcs_value (DCSCommand_attrs SET_PIXEL_FORMAT) = unat (0x3A :: byte)
   \<and> DCSCommand_find [0x3A] = Inr None
   \<and> DCSCommand_find [0x3A, 0x77, 0x00] = Inr None"
proof -
  have a: "DCSCommand_of (unat (0x3A :: byte)) = Inr SET_PIXEL_FORMAT"
    by code_simp
  have n: "nargs (DCSCommand_attrs SET_PIXEL_FORMAT) = Some 1"
    by (simp add: DCSCommand_new_def)
  show ?thesis
    using a n DCSCommand_find_fixed_arity [OF a n, of "[0x77]"]
      DCSCommand_find_fixed_arity [OF a n, of "[]"]
      DCSCommand_find_fixed_arity [OF a n, of "[0x77, 0x00]"]
    by simp
qed

text \<open>
  C4. An opcode that is no member's value and an opcode of a member whose argument count
  differs from the number of trailing bytes give the same result, \<open>None\<close>: the returned
  value does not tell the two causes apart.
\<close>

theorem DCSCommand_find_not_found_merged:
  "(DCSCommand_of (unat opcode) = Inl ValueError \<longrightarrow> DCSCommand_find (opcode # args) = Inr None)
   \<and> (\<forall>c. DCSCommand_of (unat opcode) = Inr c
           \<and> nargs (DCSCommand_attrs c) \<noteq> Some (int (length args))
         \<longrightarrow> DCSCommand_find (opcode # args) = Inr None)"
  by (auto simp: DCSCommand_find_Cons)

theorem DCSCommand_find_not_found_merged_witness:
  "DCSCommand_of (unat (0xFF :: byte)) = Inl ValueError
   \<and> DCSCommand_find [0xFF, 0x01] = Inr None
   \<and> DCSCommand_of (unat (0x29 :: byte)) = Inr SET_DISPLAY_ON
   \<and> nargs (DCSCommand_attrs SET_DISPLAY_ON) \<noteq> Some (int (length [0x01 :: byte]))
   \<and> DCSCommand_find [0x29, 0x01] = Inr None"
proof -
  have a: "DCSCommand_of (unat (0xFF :: byte)) = Inl ValueError"
    by code_simp
  have b: "DCSCommand_of (unat (0x29 :: byte)) = Inr SET_DISPLAY_ON"
    by code_simp
  have n: "nargs (DCSCommand_attrs SET_DISPLAY_ON) \<noteq> Some (int (length [0x01 :: byte]))"
    by (simp add: DCSCommand_new_def)
  show ?thesis
    using a b n DCSCommand_find_not_found_merged [of "0xFF" "[0x01]"]
      DCSCommand_find_not_found_merged [of "0x29" "[0x01]"]
    by simp
qed

section \<open>Rendering a command-set write\<close>

lemma method_nonempty: "dcs_method (DCSCommand_attrs d) = Some m \<Longrightarrow> m \<noteq> []"
  by (cases d) (auto simp: DCSCommand_new_def)


lemma generate_dcs_write_bound:
  assumes "DCSCommand_find payload = Inr (Some d)"
    and "dcs_method (DCSCommand_attrs d) = Some m"
  shows "generate_dcs_write t payload =
           (case get_params (DCSCommand_attrs d) (drop 1 payload) of
              Inl e \<Rightarrow> Inl e
            | Inr ps \<Rightarrow> Inr (check_ret (m @ ''(dsi'' @ join_params ps @ '')'')
                               (DCSCommand_description d)))"
  using assms method_nonempty [OF assms(2)] by (simp add: generate_dcs_write_def)




text \<open>
  C5. Rendering a command-set write of the single byte \<open>0x34\<close> (set tear off) gives no
  output: the payload resolves (argument count 0, bound call present), the member's
  parameter function is \<open>TearMode.get_params\<close>, it is applied to the empty rest of the
  payload, and reading its first byte raises IndexError.
\<close>

theorem generate_dcs_write_set_tear_off:
  "DCSCommand_find [0x34] = Inr (Some SET_TEAR_OFF)
   \<and> nargs (DCSCommand_attrs SET_TEAR_OFF) = Some 0
   \<and> dcs_method (DCSCommand_attrs SET_TEAR_OFF) = Some ''mipi_dsi_dcs_set_tear_off''
   \<and> get_params (DCSCommand_attrs SET_TEAR_OFF) (drop 1 [0x34]) = TearMode_get_params []
   \<and> TearMode_get_params [] = Inl IndexError
   \<and> generate_dcs_write t [0x34] = Inl IndexError
   \<and> Transaction_generate DCS_SHORT_WRITE [0x34] = Inl IndexError"
proof -
  have a: "DCSCommand_find [0x34] = Inr (Some SET_TEAR_OFF)"
    by code_simp
  have b: "dcs_method (DCSCommand_attrs SET_TEAR_OFF) = Some ''mipi_dsi_dcs_set_tear_off''"
    by (simp add: DCSCommand_new_def)
  have c: "get_params (DCSCommand_attrs SET_TEAR_OFF) (drop 1 [0x34]) = TearMode_get_params []"
    by (simp add: DCSCommand_new_def)
  have d: "TearMode_get_params [] = Inl IndexError"
    by (simp add: TearMode_get_params_def)
  have e: "generate_dcs_write t' [0x34] = Inl IndexError" for t'
    using generate_dcs_write_bound [OF a b, of t'] c d by simp
  have f: "Transaction_generate DCS_SHORT_WRITE [0x34] = Inl IndexError"
    using e [of DCS_SHORT_WRITE] by (simp add: Transaction_generate_def Transaction_new_def)
  have n: "nargs (DCSCommand_attrs SET_TEAR_OFF) = Some 0"
    by (simp add: DCSCommand_new_def)
  from a n b c d e f show ?thesis by blast
qed

text \<open>
  C6. A payload that resolves to a member without a bound call is rendered as a
  \<open>dsi_dcs_write_seq\<close> line whose first token is the member's \<open>name\<close>: for \<open>[0x12]\<close> the
  token is \<open>ENTER_PARTIAL_MODE\<close>, while the member's \<open>identifier\<close> is
  \<open>MIPI_DCS_ENTER_PARTIAL_MODE\<close>. A payload that does not resolve is rendered with every
  byte in hexadecimal.
\<close>

theorem generate_dcs_write_substitutes_name:
  "DCSCommand_find [0x12] = Inr (Some ENTER_PARTIAL_MODE)
   \<and> dcs_method (DCSCommand_attrs ENTER_PARTIAL_MODE) = None
   \<and> Transaction_generate DCS_SHORT_WRITE [0x12] =
       Inr ([TAB] @ ''dsi_dcs_write_seq(dsi, ENTER_PARTIAL_MODE);'')
   \<and> DCSCommand_identifier ENTER_PARTIAL_MODE = ''MIPI_DCS_ENTER_PARTIAL_MODE''
   \<and> DCSCommand_find [0xFF, 0x01] = Inr None
   \<and> Transaction_generate DCS_SHORT_WRITE_PARAM [0xFF, 0x01] =
       Inr ([TAB] @ ''dsi_dcs_write_seq(dsi, 0xff, 0x01);'')"
  by code_simp

section \<open>Parameter functions and the peripheral renderer\<close>

lemma TearMode_of_cases:
  "TearMode_of v = (if v = 0 then Inr VBLANK else if v = 1 then Inr VHBLANK else Inl ValueError)"
  by (simp add: TearMode_of_def)

text \<open>
  C8. \<open>TearMode.get_params\<close> on the single byte 0 gives the identifier of VBLANK, on 1
  that of VHBLANK, and on 2, as on any byte other than 0 and 1, raises ValueError.
\<close>

theorem TearMode_get_params_values:
  "TearMode_get_params [0] = Inr [''MIPI_DSI_DCS_TEAR_MODE_VBLANK'']
   \<and> TearMode_get_params [1] = Inr [''MIPI_DSI_DCS_TEAR_MODE_VHBLANK'']
   \<and> TearMode_get_params [2] = Inl ValueError
   \<and> (\<forall>b. b \<noteq> 0 \<and> b \<noteq> 1 \<longrightarrow> TearMode_get_params [b] = Inl ValueError)"
proof -
  have other: "TearMode_get_params [b] = Inl ValueError" if "b \<noteq> 0" "b \<noteq> 1" for b :: byte
  proof -
    from that have "unat b \<noteq> 0" "unat b \<noteq> 1"
      using word_unat_eq_iff [of b 0] word_unat_eq_iff [of b 1] by simp_all
    then show ?thesis
      by (simp add: TearMode_get_params_def TearMode_of_cases)
  qed
  have "TearMode_get_params [0] = Inr [''MIPI_DSI_DCS_TEAR_MODE_VBLANK'']"
    by (simp add: TearMode_get_params_def TearMode_of_cases TearMode_identifier_def)
  moreover have "TearMode_get_params [1] = Inr [''MIPI_DSI_DCS_TEAR_MODE_VHBLANK'']"
    by (simp add: TearMode_get_params_def TearMode_of_cases TearMode_identifier_def)
  moreover have "TearMode_get_params [2] = Inl ValueError"
    by (rule other) simp_all
  ultimately show ?thesis using other by blast
qed

theorem TearMode_get_params_values_witness:
  "(3::byte) \<noteq> 0 \<and> (3::byte) \<noteq> 1 \<and> TearMode_get_params [3] = Inl ValueError"
  using TearMode_get_params_values by simp

text \<open>
  C9. Rendering the transaction \<open>0x22\<close> (shutdown peripheral) with an empty payload gives
  the error-checked call: the line \<open>ret = mipi_dsi_shutdown_peripheral(dsi);\<close>, a call
  with no argument but \<open>dsi\<close>, followed by the test \<open>if (ret < 0)\<close> that reports the
  failure with \<open>dev_err\<close> and returns \<open>ret\<close>. With one argument byte, and with any
  payload, it gives the same output. The peripheral renderer raises ValueError for every
  transaction other than turn-on and shutdown.
\<close>

theorem generate_peripheral_shutdown:
  "Transaction_generate SHUTDOWN_PERIPHERAL [] =
     Inr ([TAB] @ ''ret = mipi_dsi_shutdown_peripheral(dsi);'' @ [NL] @
          [TAB] @ ''if (ret < 0) {'' @ [NL] @
          [TAB, TAB] @ ''dev_err(dev, '' @ [DQUOTE] @ ''Failed to shutdown peripheral: %d'' @
            [BACKSLASH] @ ''n'' @ [DQUOTE] @ '', ret);'' @ [NL] @
          [TAB, TAB] @ ''return ret;'' @ [NL] @
          [TAB] @ ''}'')
   \<and> Transaction_generate SHUTDOWN_PERIPHERAL [a] = Transaction_generate SHUTDOWN_PERIPHERAL []
   \<and> Transaction_generate SHUTDOWN_PERIPHERAL payload = Transaction_generate SHUTDOWN_PERIPHERAL []
   \<and> (t \<noteq> TURN_ON_PERIPHERAL \<and> t \<noteq> SHUTDOWN_PERIPHERAL \<longrightarrow>
         generate_peripheral t payload = Inl ValueError)"
proof -
  have lit: "Transaction_generate SHUTDOWN_PERIPHERAL [] =
     Inr ([TAB] @ ''ret = mipi_dsi_shutdown_peripheral(dsi);'' @ [NL] @
          [TAB] @ ''if (ret < 0) {'' @ [NL] @
          [TAB, TAB] @ ''dev_err(dev, '' @ [DQUOTE] @ ''Failed to shutdown peripheral: %d'' @
            [BACKSLASH] @ ''n'' @ [DQUOTE] @ '', ret);'' @ [NL] @
          [TAB, TAB] @ ''return ret;'' @ [NL] @
          [TAB] @ ''}'')"
    by code_simp
  have same: "Transaction_generate SHUTDOWN_PERIPHERAL p = Transaction_generate SHUTDOWN_PERIPHERAL []"
    for p
    by (simp add: Transaction_generate_def Transaction_new_def generate_peripheral_def)
  have other: "t \<noteq> TURN_ON_PERIPHERAL \<and> t \<noteq> SHUTDOWN_PERIPHERAL \<longrightarrow>
         generate_peripheral t payload = Inl ValueError"
    by (simp add: generate_peripheral_def)
  from lit same [of "[a]"] same [of payload] other show ?thesis by (intro conjI)
qed

theorem generate_peripheral_shutdown_witness:
  "DCS_READ \<noteq> TURN_ON_PERIPHERAL \<and> DCS_READ \<noteq> SHUTDOWN_PERIPHERAL
   \<and> generate_peripheral DCS_READ [] = Inl ValueError"
proof -
  have h: "DCS_READ \<noteq> TURN_ON_PERIPHERAL \<and> DCS_READ \<noteq> SHUTDOWN_PERIPHERAL"
    by simp
  from generate_peripheral_shutdown [of 0 "[]" DCS_READ]
  have "DCS_READ \<noteq> TURN_ON_PERIPHERAL \<and> DCS_READ \<noteq> SHUTDOWN_PERIPHERAL \<longrightarrow>
         generate_peripheral DCS_READ [] = Inl ValueError"
    by (elim conjE)
  with h show ?thesis by blast
qed

section \<open>The fixed-width integer parameters\<close>

subsection \<open>Groups drawn from the shared iterator\<close>

lemma zip_shared_zero: "zip_shared 0 b = []"
  by (simp add: zip_shared.simps)

lemma zip_shared_groups:
  "0 < W \<Longrightarrow> zip_shared W b = map (\<lambda>i. take W (drop (i * W) b)) [0..<length b div W]"
proof (induction W b rule: zip_shared.induct)
  case (1 sz b)
  show ?case
  proof (cases "length b < sz")
    case True
    then show ?thesis by (simp add: zip_shared.simps)
  next
    case False
    with "1.prems" have ih:
      "zip_shared sz (drop sz b) =
         map (\<lambda>i. take sz (drop (i * sz) (drop sz b))) [0..<length (drop sz b) div sz]"
      using "1.IH" by simp
    from False "1.prems" have d: "length b div sz = Suc ((length b - sz) div sz)"
      by (simp add: le_div_geq)
    have "map (\<lambda>i. take sz (drop (i * sz) b)) [0..<Suc ((length b - sz) div sz)] =
          take sz b # map (\<lambda>i. take sz (drop (Suc i * sz) b)) [0..<(length b - sz) div sz]"
      by (simp add: upt_conv_Cons map_Suc_upt [symmetric] del: upt_Suc)
    moreover have "zip_shared sz b = take sz b # zip_shared sz (drop sz b)"
      using False "1.prems" by (subst zip_shared.simps) simp
    ultimately show ?thesis
      using ih d by (simp add: add.commute)
  qed
qed

lemma length_zip_shared: "length (zip_shared W b) = length b div W"
  by (cases "W = 0") (simp_all add: zip_shared_zero zip_shared_groups)

lemma zip_shared_take: "zip_shared W (take (length b div W * W) b) = zip_shared W b"
proof (cases "W = 0")
  case True
  then show ?thesis by (simp add: zip_shared_zero)
next
  case False
  then have W: "0 < W" by simp
  have le: "length b div W * W \<le> length b"
    by simp
  have len: "length (take (length b div W * W) b) div W = length b div W"
    using W le by (simp add: min_absorb2)
  have "take W (drop (i * W) (take (length b div W * W) b)) = take W (drop (i * W) b)"
    if "i < length b div W" for i
  proof -
    from that have "Suc i * W \<le> length b div W * W"
      by (intro mult_le_mono1) simp
    then have "W \<le> length b div W * W - i * W" by simp
    then show ?thesis
      by (simp add: drop_take min_absorb1)
  qed
  then show ?thesis
    by (simp add: zip_shared_groups [OF W] len)
qed

subsection \<open>The value of a group of bytes\<close>

lemma comprehension_total: "comprehension (\<lambda>x. Inr (f x)) xs = Inr (map f xs)"
  by (induction xs) simp_all

lemma unat_byte_less: "unat (x :: byte) < 256"
  using unsigned_less [of x, where ?'a = nat] by simp

lemma big_endian_sum:
  "foldl (\<lambda>acc x. acc * 256 + unat x) 0 (t :: byte list) =
     (\<Sum>j<length t. unat (t ! j) * 256 ^ (length t - 1 - j))"
proof (induction t rule: rev_induct)
  case Nil
  show ?case by simp
next
  case (snoc x xs)
  have "(\<Sum>j<length xs. unat ((xs @ [x]) ! j) * 256 ^ (length xs - j)) =
        (\<Sum>j<length xs. (unat (xs ! j) * 256 ^ (length xs - 1 - j)) * 256)"
  proof (rule sum.cong)
    fix j assume "j \<in> {..<length xs}"
    then have j: "j < length xs" by simp
    then have "length xs - j = Suc (length xs - 1 - j)" by simp
    then show "unat ((xs @ [x]) ! j) * 256 ^ (length xs - j) =
               (unat (xs ! j) * 256 ^ (length xs - 1 - j)) * 256"
      using j by (simp add: nth_append)
  qed simp
  then show ?case
    using snoc.IH by (simp add: sum_distrib_right)
qed

lemma little_endian_sum:
  "foldr (\<lambda>x acc. unat x + 256 * acc) (t :: byte list) 0 = (\<Sum>j<length t. unat (t ! j) * 256 ^ j)"
proof (induction t)
  case Nil
  show ?case by simp
next
  case (Cons x xs)
  have "(\<Sum>j<length (x # xs). unat ((x # xs) ! j) * 256 ^ j) =
        unat x + (\<Sum>j<length xs. unat (xs ! j) * 256 ^ Suc j)"
    by (simp add: sum.lessThan_Suc_shift del: sum.lessThan_Suc)
  also have "(\<Sum>j<length xs. unat (xs ! j) * 256 ^ Suc j) =
             256 * (\<Sum>j<length xs. unat (xs ! j) * 256 ^ j)"
    by (simp add: sum_distrib_left mult.left_commute)
  finally show ?case
    using Cons.IH by simp
qed

lemma big_endian_bound: "foldl (\<lambda>acc x. acc * 256 + unat x) 0 (t :: byte list) < 256 ^ length t"
proof (induction t rule: rev_induct)
  case Nil
  show ?case by simp
next
  case (snoc x xs)
  let ?v = "foldl (\<lambda>acc x. acc * 256 + unat x) 0 xs"
  from snoc.IH have "Suc ?v \<le> 256 ^ length xs" by simp
  then have "Suc ?v * 256 \<le> 256 ^ length xs * 256" by (rule mult_le_mono1)
  with unat_byte_less [of x] show ?case by simp
qed

lemma little_endian_bound: "foldr (\<lambda>x acc. unat x + 256 * acc) (t :: byte list) 0 < 256 ^ length t"
proof (induction t)
  case Nil
  show ?case by simp
next
  case (Cons x xs)
  let ?v = "foldr (\<lambda>x acc. unat x + 256 * acc) xs 0"
  from Cons.IH have "Suc ?v \<le> 256 ^ length xs" by simp
  then have "256 * Suc ?v \<le> 256 * 256 ^ length xs" by (rule mult_le_mono2)
  with unat_byte_less [of x] show ?case by simp
qed

subsection \<open>Hexadecimal tokens\<close>

lemma hex_digit_value_digit: "d < 16 \<Longrightarrow> hex_digit_value (hex_digit d) = d"
proof -
  assume "d < 16"
  then have "d = 0 \<or> d = 1 \<or> d = 2 \<or> d = 3 \<or> d = 4 \<or> d = 5 \<or> d = 6 \<or> d = 7 \<or> d = 8
             \<or> d = 9 \<or> d = 10 \<or> d = 11 \<or> d = 12 \<or> d = 13 \<or> d = 14 \<or> d = 15"
    by arith
  then show ?thesis
    by (elim disjE) (simp_all add: hex_digit_value_def hex_digit_def)
qed

lemma hex_digit_in: "d < 16 \<Longrightarrow> hex_digit d \<in> set ''0123456789abcdef''"
  unfolding hex_digit_def by (rule nth_mem) simp

lemma hex_value_snoc: "hex_value (s @ [c]) = 16 * hex_value s + hex_digit_value c"
  by (simp add: hex_value_def)

lemma hex_value_digits: "hex_value (hex_digits i) = i"
proof (induction i rule: hex_digits.induct)
  case (1 i)
  show ?case
  proof (cases "i < 16")
    case True
    then show ?thesis
      by (subst hex_digits.simps) (simp add: hex_value_def hex_digit_value_digit)
  next
    case False
    with 1 have "hex_value (hex_digits (i div 16)) = i div 16" by simp
    with False show ?thesis
      by (subst hex_digits.simps) (simp add: hex_value_snoc hex_digit_value_digit)
  qed
qed

lemma set_hex_digits: "set (hex_digits i) \<subseteq> set ''0123456789abcdef''"
proof (induction i rule: hex_digits.induct)
  case (1 i)
  show ?case
  proof (cases "i < 16")
    case True
    then show ?thesis
      using hex_digit_in [of i] by (subst hex_digits.simps) simp
  next
    case False
    with 1 have "set (hex_digits (i div 16)) \<subseteq> set ''0123456789abcdef''" by simp
    with False show ?thesis
      using hex_digit_in [of "i mod 16"] by (subst hex_digits.simps) simp
  qed
qed

lemma length_hex_digits: "0 < m \<Longrightarrow> i < 16 ^ m \<Longrightarrow> length (hex_digits i) \<le> m"
proof (induction i arbitrary: m rule: hex_digits.induct)
  case (1 i)
  show ?case
  proof (cases "i < 16")
    case True
    with "1.prems" show ?thesis
      by (subst hex_digits.simps) simp
  next
    case False
    from "1.prems" obtain k where m: "m = Suc k" by (cases m) auto
    with False "1.prems" have k: "0 < k" by (cases k) auto
    from "1.prems" m have "i div 16 < 16 ^ k"
      by (simp add: less_mult_imp_div_less mult.commute)
    with False k have "length (hex_digits (i div 16)) \<le> k"
      using "1.IH" by simp
    with False m show ?thesis
      by (subst hex_digits.simps) simp
  qed
qed

lemma hex_value_zeros: "hex_value (replicate k CHR ''0'' @ s) = hex_value s"
proof -
  have z: "foldl (\<lambda>acc c. 16 * acc + hex_digit_value c) 0 (replicate k CHR ''0'') = 0"
    by (induction k) (simp_all add: hex_digit_value_def)
  show ?thesis by (simp add: hex_value_def z)
qed

lemma hex_fill_token:
  assumes "0 < W" and "v < 256 ^ W"
  shows "\<exists>ds. hex_fill v W = ''0x'' @ ds \<and> length ds = W * 2
              \<and> set ds \<subseteq> set ''0123456789abcdef'' \<and> hex_value ds = v"
proof -
  let ?ds = "replicate (W * 2 - length (hex_digits v)) CHR ''0'' @ hex_digits v"
  have "(16 :: nat) ^ (2 * W) = (16 ^ 2) ^ W"
    by (rule power_mult)
  then have "(256 :: nat) ^ W = 16 ^ (W * 2)"
    by (simp add: mult.commute)
  with assms have len: "length (hex_digits v) \<le> W * 2"
    by (intro length_hex_digits) simp_all
  have "hex_fill v W = ''0x'' @ ?ds"
    by (simp add: hex_fill_def format_hex_alt_zero_def Let_def)
  moreover from len have "length ?ds = W * 2" by simp
  moreover have "set ?ds \<subseteq> set ''0123456789abcdef''"
    using set_hex_digits [of v] by auto
  moreover have "hex_value ?ds = v"
    by (simp add: hex_value_zeros hex_value_digits)
  ultimately show ?thesis by blast
qed

subsection \<open>Tokens of the integer codec\<close>

lemma get_params_int_big:
  "get_params_int W ''big'' b =
     Inr (map (\<lambda>t. hex_fill (foldl (\<lambda>acc x. acc * 256 + unat x) 0 t) W) (zip_shared W b))"
  by (simp add: get_params_int_def int_from_bytes_def comprehension_total)

lemma get_params_int_little:
  "get_params_int W ''little'' b =
     Inr (map (\<lambda>t. hex_fill (foldr (\<lambda>x acc. unat x + 256 * acc) t 0) W) (zip_shared W b))"
  by (simp add: get_params_int_def int_from_bytes_def comprehension_total)

lemma group_length:
  assumes "i < length b div W"
  shows "length (take W (drop (i * W) b)) = W"
proof -
  from assms have "Suc i * W \<le> length b div W * W"
    by (intro mult_le_mono1) simp
  also have "\<dots> \<le> length b" by simp
  finally show ?thesis by simp
qed

lemma group_nth:
  assumes "i < length b div W" and "j < W"
  shows "take W (drop (i * W) b) ! j = b ! (i * W + j)"
proof -
  from assms(1) have "Suc i * W \<le> length b div W * W"
    by (intro mult_le_mono1) simp
  also have "\<dots> \<le> length b" by simp
  finally have "i * W \<le> length b" by simp
  with assms(2) show ?thesis by simp
qed

lemma get_params_int_tokens:
  assumes W: "0 < W" and bo: "byteoder = ''big'' \<or> byteoder = ''little''"
  shows "\<exists>ts. get_params_int W byteoder b = Inr ts \<and> length ts = length b div W \<and>
           (\<forall>i<length b div W. \<exists>ds. ts ! i = ''0x'' @ ds \<and> length ds = W * 2
               \<and> set ds \<subseteq> set ''0123456789abcdef''
               \<and> hex_value ds =
                   (\<Sum>j<W. unat (b ! (i * W + j)) *
                      256 ^ (if byteoder = ''big'' then W - 1 - j else j)))"
proof -
  let ?n = "length b div W"
  let ?g = "\<lambda>i. take W (drop (i * W) b)"
  from bo show ?thesis
  proof
    assume big: "byteoder = ''big''"
    let ?v = "\<lambda>t :: byte list. foldl (\<lambda>acc x. acc * 256 + unat x) 0 t"
    let ?ts = "map (\<lambda>i. hex_fill (?v (?g i)) W) [0..<?n]"
    have res: "get_params_int W byteoder b = Inr ?ts"
      by (simp add: big get_params_int_big zip_shared_groups [OF W] comp_def)
    have tok: "\<exists>ds. ?ts ! i = ''0x'' @ ds \<and> length ds = W * 2
               \<and> set ds \<subseteq> set ''0123456789abcdef''
               \<and> hex_value ds = (\<Sum>j<W. unat (b ! (i * W + j)) * 256 ^ (W - 1 - j))"
      if i: "i < ?n" for i
    proof -
      have len: "length (?g i) = W" using i by (rule group_length)
      have "?v (?g i) < 256 ^ W"
        using big_endian_bound [of "?g i"] by (simp only: len)
      from hex_fill_token [OF W this] obtain ds where
        ds: "hex_fill (?v (?g i)) W = ''0x'' @ ds" "length ds = W * 2"
          "set ds \<subseteq> set ''0123456789abcdef''" "hex_value ds = ?v (?g i)"
        by blast
      have "?v (?g i) = (\<Sum>j<W. unat (?g i ! j) * 256 ^ (W - 1 - j))"
        using big_endian_sum [of "?g i"] by (simp only: len)
      also have "\<dots> = (\<Sum>j<W. unat (b ! (i * W + j)) * 256 ^ (W - 1 - j))"
        by (rule sum.cong) (simp_all only: group_nth [OF i] lessThan_iff)
      finally have "hex_value ds = (\<Sum>j<W. unat (b ! (i * W + j)) * 256 ^ (W - 1 - j))"
        using ds(4) by simp
      with ds(1-3) i show ?thesis by simp
    qed
    from res tok big show ?thesis by simp
  next
    assume little: "byteoder = ''little''"
    let ?v = "\<lambda>t :: byte list. foldr (\<lambda>x acc. unat x + 256 * acc) t 0"
    let ?ts = "map (\<lambda>i. hex_fill (?v (?g i)) W) [0..<?n]"
    have res: "get_params_int W byteoder b = Inr ?ts"
      by (simp add: little get_params_int_little zip_shared_groups [OF W] comp_def)
    have tok: "\<exists>ds. ?ts ! i = ''0x'' @ ds \<and> length ds = W * 2
               \<and> set ds \<subseteq> set ''0123456789abcdef''
               \<and> hex_value ds = (\<Sum>j<W. unat (b ! (i * W + j)) * 256 ^ j)"
      if i: "i < ?n" for i
    proof -
      have len: "length (?g i) = W" using i by (rule group_length)
      have "?v (?g i) < 256 ^ W"
        using little_endian_bound [of "?g i"] by (simp only: len)
      from hex_fill_token [OF W this] obtain ds where
        ds: "hex_fill (?v (?g i)) W = ''0x'' @ ds" "length ds = W * 2"
          "set ds \<subseteq> set ''0123456789abcdef''" "hex_value ds = ?v (?g i)"
        by blast
      have "?v (?g i) = (\<Sum>j<W. unat (?g i ! j) * 256 ^ j)"
        using little_endian_sum [of "?g i"] by (simp only: len)
      also have "\<dots> = (\<Sum>j<W. unat (b ! (i * W + j)) * 256 ^ j)"
        by (rule sum.cong) (simp_all only: group_nth [OF i] lessThan_iff)
      finally have "hex_value ds = (\<Sum>j<W. unat (b ! (i * W + j)) * 256 ^ j)"
        using ds(4) by simp
      with ds(1-3) i show ?thesis by simp
    qed
    from res tok little show ?thesis by simp
  qed
qed

text \<open>
  C7. On an input of \<open>k\<close> groups of \<open>W\<close> bytes each, \<open>_get_params_int(W, byteorder)\<close>
  returns \<open>k\<close> tokens; token \<open>i\<close> is \<open>0x\<close> followed by exactly \<open>W * 2\<close> hexadecimal
  digits whose value is the unsigned integer of the bytes \<open>b[i * W], ..., b[i * W + W - 1]\<close>
  in the byte order given (most significant byte first for \<open>'big'\<close>, last for
  \<open>'little'\<close>). Width 2, big-endian, on \<open>[0x01, 0x2C]\<close> gives \<open>0x012c\<close>, and so does
  width 2, little-endian, on \<open>[0x2C, 0x01]\<close>.
\<close>

theorem get_params_int_aligned:
  "(0 < W \<and> length b = k * W \<and> (byteoder = ''big'' \<or> byteoder = ''little'') \<longrightarrow>
      (\<exists>ts. get_params_int W byteoder b = Inr ts \<and> length ts = k \<and>
         (\<forall>i<k. \<exists>ds. ts ! i = ''0x'' @ ds \<and> length ds = W * 2
             \<and> set ds \<subseteq> set ''0123456789abcdef''
             \<and> hex_value ds =
                 (\<Sum>j<W. unat (b ! (i * W + j)) *
                    256 ^ (if byteoder = ''big'' then W - 1 - j else j)))))
   \<and> get_params_int 2 ''big'' [0x01, 0x2C] = Inr [''0x012c'']
   \<and> get_params_int 2 ''little'' [0x2C, 0x01] = Inr [''0x012c'']"
proof -
  have big: "get_params_int 2 ''big'' [0x01, 0x2C] = Inr [''0x012c'']"
    by code_simp
  have little: "get_params_int 2 ''little'' [0x2C, 0x01] = Inr [''0x012c'']"
    by code_simp
  have gen: "\<exists>ts. get_params_int W byteoder b = Inr ts \<and> length ts = k \<and>
         (\<forall>i<k. \<exists>ds. ts ! i = ''0x'' @ ds \<and> length ds = W * 2
             \<and> set ds \<subseteq> set ''0123456789abcdef''
             \<and> hex_value ds =
                 (\<Sum>j<W. unat (b ! (i * W + j)) *
                    256 ^ (if byteoder = ''big'' then W - 1 - j else j)))"
    if "0 < W" "length b = k * W" "byteoder = ''big'' \<or> byteoder = ''little''"
  proof -
    from that(1,2) have "length b div W = k" by simp
    with get_params_int_tokens [OF that(1) that(3), of b] show ?thesis by simp
  qed
  show ?thesis
  proof (intro conjI impI)
    assume "0 < W \<and> length b = k * W \<and> (byteoder = ''big'' \<or> byteoder = ''little'')"
    then show "\<exists>ts. get_params_int W byteoder b = Inr ts \<and> length ts = k \<and>
         (\<forall>i<k. \<exists>ds. ts ! i = ''0x'' @ ds \<and> length ds = W * 2
             \<and> set ds \<subseteq> set ''0123456789abcdef''
             \<and> hex_value ds =
                 (\<Sum>j<W. unat (b ! (i * W + j)) *
                    256 ^ (if byteoder = ''big'' then W - 1 - j else j)))"
      by (elim conjE) (rule gen)
  qed (rule big little)+
qed

theorem get_params_int_aligned_witness:
  "0 < (2::nat) \<and> length [0x12, 0x34, 0x56, 0x78 :: byte] = 2 * 2
   \<and> (\<exists>ts. get_params_int 2 ''big'' [0x12, 0x34, 0x56, 0x78] = Inr ts \<and> length ts = 2)"
proof -
  have h: "0 < (2::nat) \<and> length [0x12, 0x34, 0x56, 0x78 :: byte] = 2 * 2
           \<and> (''big'' = ''big'' \<or> ''big'' = ''little'')"
    by simp
  from get_params_int_aligned [of 2 "[0x12, 0x34, 0x56, 0x78]" 2 "''big''"]
  have "0 < (2::nat) \<and> length [0x12, 0x34, 0x56, 0x78 :: byte] = 2 * 2
           \<and> (''big'' = ''big'' \<or> ''big'' = ''little'') \<longrightarrow>
        (\<exists>ts. get_params_int 2 ''big'' [0x12, 0x34, 0x56, 0x78] = Inr ts \<and> length ts = 2 \<and>
         (\<forall>i<2. \<exists>ds. ts ! i = ''0x'' @ ds \<and> length ds = 2 * 2
             \<and> set ds \<subseteq> set ''0123456789abcdef''
             \<and> hex_value ds =
                 (\<Sum>j<2. unat ([0x12, 0x34, 0x56, 0x78 :: byte] ! (i * 2 + j)) *
                    256 ^ (if ''big'' = ''big'' then 2 - 1 - j else j))))"
    by (rule conjunct1)
  from this h obtain ts where
    "get_params_int 2 ''big'' [0x12, 0x34, 0x56, 0x78] = Inr ts" "length ts = 2"
    by blast
  with h show ?thesis by blast
qed

text \<open>
  C10. On an input whose length is not a multiple of the width \<open>W\<close>,
  \<open>_get_params_int(W, byteorder)\<close> raises nothing: it returns \<open>length b div W\<close> tokens,
  the same tokens as on the input cut to its first \<open>(length b div W) * W\<close> bytes, so the
  last \<open>length b mod W\<close> bytes have no effect.
\<close>

theorem get_params_int_misaligned:
  assumes "0 < W" and "\<not> W dvd length b"
    and "byteoder = ''big'' \<or> byteoder = ''little''"
  shows "\<exists>ts. get_params_int W byteoder b = Inr ts \<and> length ts = length b div W
           \<and> get_params_int W byteoder (take (length b div W * W) b) = Inr ts"
proof -
  have same: "get_params_int W byteoder (take (length b div W * W) b) = get_params_int W byteoder b"
    by (simp add: get_params_int_def zip_shared_take)
  from get_params_int_tokens [OF assms(1) assms(3), of b] obtain ts where
    "get_params_int W byteoder b = Inr ts" "length ts = length b div W"
    by blast
  with same show ?thesis by simp
qed

theorem get_params_int_misaligned_witness:
  "0 < (2::nat) \<and> \<not> 2 dvd length [0x2C, 0x01, 0x03 :: byte]
   \<and> get_params_int 2 ''little'' [0x2C, 0x01, 0x03] = Inr [''0x012c'']
   \<and> get_params_int 2 ''little'' (take (length [0x2C, 0x01, 0x03 :: byte] div 2 * 2) [0x2C, 0x01, 0x03])
       = Inr [''0x012c'']"
proof -
  have v: "get_params_int 2 ''little'' [0x2C, 0x01, 0x03] = Inr [''0x012c'']"
    by code_simp
  have h: "\<not> 2 dvd length [0x2C, 0x01, 0x03 :: byte]"
    by simp
  have d: "length [0x2C, 0x01, 0x03 :: byte] div 2 = 1"
    by simp
  from get_params_int_misaligned [of 2 "[0x2C, 0x01, 0x03]" "''little''"] h
  obtain ts where ts: "get_params_int 2 ''little'' [0x2C, 0x01, 0x03] = Inr ts"
    "length ts = length [0x2C, 0x01, 0x03 :: byte] div 2"
    "get_params_int 2 ''little'' (take (length [0x2C, 0x01, 0x03 :: byte] div 2 * 2) [0x2C, 0x01, 0x03])
       = Inr ts"
    by auto
  from ts(1) v have "ts = [''0x012c'']" by simp
  with ts(3) have t: "get_params_int 2 ''little''
      (take (length [0x2C, 0x01, 0x03 :: byte] div 2 * 2) [0x2C, 0x01, 0x03]) = Inr [''0x012c'']"
    by (simp only:)
  have z: "0 < (2::nat)" by simp
  from z h v t show ?thesis by (intro conjI)
qed

end
